theory Spec2Isabelle
  imports Main "HOL-Library.Word"
begin

unbundle bit_operations_syntax

section \<open>Values and the host platform\<close>

text \<open>
  The wallet runs in a browser. Everything it asks of the browser (Web Crypto,
  \<open>TextEncoder\<close>, \<open>btoa\<close>, \<open>JSON.parse\<close>, string normalisation) is not code of the
  repository; it is collected in the record \<open>platform\<close> and every function of the
  model takes it as its first argument. Strings are \<open>string\<close>; a \<open>Uint8Array\<close> is
  a list of bytes.
\<close>

type_synonym byte = "8 word"

datatype js_error = Error string | DOMException string | TypeError string

datatype json =
    JNull
  | JBool bool
  | JNum int
  | JStr string
  | JArr "json list"
  | JObj "(string \<times> json) list"

record platform =
  digest_sha256 :: "byte list \<Rightarrow> byte list"
  normalize_nfkd :: "string \<Rightarrow> string"
  text_encode :: "string \<Rightarrow> byte list"
  text_decode :: "byte list \<Rightarrow> string"
  pbkdf2_deriveBits :: "byte list \<Rightarrow> byte list \<Rightarrow> nat \<Rightarrow> string \<Rightarrow> nat \<Rightarrow> byte list"
  pbkdf2_deriveKey ::
    "byte list \<Rightarrow> byte list \<Rightarrow> nat \<Rightarrow> string \<Rightarrow> string \<Rightarrow> nat \<Rightarrow> js_error + byte list"
  subtle_encrypt :: "string \<Rightarrow> byte list \<Rightarrow> byte list \<Rightarrow> byte list \<Rightarrow> js_error + byte list"
  subtle_decrypt :: "string \<Rightarrow> byte list \<Rightarrow> byte list \<Rightarrow> byte list \<Rightarrow> js_error + byte list"
  btoa :: "string \<Rightarrow> string"
  atob :: "string \<Rightarrow> js_error + string"
  json_parse :: "string \<Rightarrow> js_error + json"

section \<open>src/config/security.config.js\<close>

definition encryption_algorithm :: string where "encryption_algorithm = ''AES-GCM''"
definition encryption_keySize :: nat where "encryption_keySize = 256"
definition encryption_ivSize :: nat where "encryption_ivSize = 12"
definition encryption_saltSize :: nat where "encryption_saltSize = 16"
definition encryption_iterations :: nat where "encryption_iterations = 100000"
definition encryption_hash :: string where "encryption_hash = ''SHA-256''"

definition mnemonic_wordCount :: "nat list" where
  "mnemonic_wordCount = [12, 15, 18, 21, 24]"

text \<open>
  \<open>generateSecureRandom(bytes)\<close> fills a fresh \<open>Uint8Array\<close> from the browser's
  generator. The generator is a tape of bytes and a read position; a call returns the
  next \<open>bytes\<close> bytes and moves the position. The browser is taken to have a
  generator: the error that the source throws without one is not modelled.
\<close>

record rng =
  tape :: "nat \<Rightarrow> byte"
  pos :: nat

definition generateSecureRandom :: "nat \<Rightarrow> rng \<Rightarrow> byte list \<times> rng" where
  "generateSecureRandom bytes g =
     (map (tape g) [pos g ..< pos g + bytes], g\<lparr>pos := pos g + bytes\<rparr>)"

section \<open>src/core/mnemonic.js\<close>

subsection \<open>Bit helpers\<close>

text \<open>\<open>byteToBits\<close>: \<open>for (i = 7; i >= 0; i--) bits.push((byte >> i) & 1)\<close>.\<close>

definition byteToBits :: "byte \<Rightarrow> int list" where
  "byteToBits b = map (\<lambda>i. uint (drop_bit i b AND 1)) (rev [0..<8])"

text \<open>
  \<open>numberToBits(number, length)\<close>. The numbers are word indices, between \<open>-1\<close>
  (\<open>indexOf\<close> of a missing word) and the length of the word list, where the 32-bit
  \<open>>>\<close> of the source is the shift on integers.
\<close>

definition numberToBits :: "int \<Rightarrow> nat \<Rightarrow> int list" where
  "numberToBits number len = map (\<lambda>i. drop_bit i number AND 1) (rev [0..<len])"

text \<open>
  \<open>bitsToNumber\<close>: \<open>number = (number << 1) | bits[i]\<close>, a 32-bit signed result at
  every step.
\<close>

definition bitsToNumber :: "int list \<Rightarrow> int" where
  "bitsToNumber bits =
     foldl (\<lambda>number b. sint ((push_bit 1 (word_of_int number) OR word_of_int b) :: 32 word)) 0 bits"

subsection \<open>The digest that is never awaited\<close>

text \<open>
  \<open>sha256(data)\<close> returns what \<open>window.crypto.subtle.digest\<close> returns: a promise.
  The callers use the result without awaiting it. A promise has no \<open>length\<close>
  property: \<open>hash.length\<close> is \<open>undefined\<close>, written \<open>None\<close>, and \<open>i < undefined\<close>
  is false, so the loop over \<open>hash\<close> has no iteration.
\<close>

datatype 'a promise = Promise 'a

definition sha256 :: "platform \<Rightarrow> byte list \<Rightarrow> byte list promise" where
  "sha256 p data = Promise (digest_sha256 p data)"

fun promise_length :: "'a promise \<Rightarrow> nat option" where
  "promise_length (Promise _) = None"

fun promise_index :: "'a promise \<Rightarrow> nat \<Rightarrow> byte option" where
  "promise_index (Promise _) i = None"

text \<open>\<open>byteToBits(undefined)\<close>: \<open>undefined >> i\<close> is 0.\<close>

definition hashBits_of :: "byte list promise \<Rightarrow> int list" where
  "hashBits_of hash =
     (case promise_length hash of
        None \<Rightarrow> []
      | Some n \<Rightarrow> concat (map (\<lambda>i. case promise_index hash i of
                                      None \<Rightarrow> replicate 8 0
                                    | Some b \<Rightarrow> byteToBits b) [0..<n]))"

subsection \<open>Strings and arrays of the language\<close>

text \<open>White space of \<open>\s\<close> and of \<open>trim\<close>, among the characters of \<open>string\<close>.\<close>

definition is_ws :: "char \<Rightarrow> bool" where
  "is_ws c = (of_char c \<in> {9, 10, 11, 12, 13, 32, 160 :: nat})"

definition trim :: "string \<Rightarrow> string" where
  "trim s = rev (dropWhile is_ws (rev (dropWhile is_ws s)))"

text \<open>\<open>s.split(/\s+/g)\<close>: the pieces between maximal runs of white space.\<close>

function split_ws_from :: "string \<Rightarrow> string \<Rightarrow> string list" where
  "split_ws_from cur [] = [cur]"
| "split_ws_from cur (c # cs) =
     (if is_ws c then cur # split_ws_from [] (dropWhile is_ws cs)
      else split_ws_from (cur @ [c]) cs)"
  by pat_completeness auto
termination
  by (relation "measure (\<lambda>(cur, s). length s)")
     (auto simp: length_dropWhile_le less_Suc_eq_le)

definition split_ws :: "string \<Rightarrow> string list" where
  "split_ws s = split_ws_from [] s"

text \<open>\<open>s.split(' ')\<close>: the pieces between single separator characters.\<close>

fun split_on :: "char \<Rightarrow> string \<Rightarrow> string list" where
  "split_on sep [] = [[]]"
| "split_on sep (c # cs) =
     (if c = sep then [] # split_on sep cs
      else (case split_on sep cs of
              [] \<Rightarrow> [[c]]
            | w # ws \<Rightarrow> (c # w) # ws))"

text \<open>\<open>words.join(' ')\<close>: an \<open>undefined\<close> element is joined as the empty string.\<close>

fun join_sp :: "string option list \<Rightarrow> string" where
  "join_sp [] = []"
| "join_sp [w] = (case w of None \<Rightarrow> [] | Some s \<Rightarrow> s)"
| "join_sp (w # ws) = (case w of None \<Rightarrow> [] | Some s \<Rightarrow> s) @ '' '' @ join_sp ws"

text \<open>\<open>xs[i]\<close> is \<open>undefined\<close> out of range.\<close>

definition at_index :: "'a list \<Rightarrow> nat \<Rightarrow> 'a option" where
  "at_index xs i = (if i < length xs then Some (xs ! i) else None)"

text \<open>\<open>wordList[index]\<close> with a number that may be negative.\<close>

definition word_at :: "string list \<Rightarrow> int \<Rightarrow> string option" where
  "word_at wordList index = (if 0 \<le> index then at_index wordList (nat index) else None)"

fun indexOf_from :: "nat \<Rightarrow> string list \<Rightarrow> string \<Rightarrow> int" where
  "indexOf_from i [] w = -1"
| "indexOf_from i (x # xs) w = (if x = w then int i else indexOf_from (Suc i) xs w)"

definition indexOf :: "string list \<Rightarrow> string \<Rightarrow> int" where
  "indexOf wordList w = indexOf_from 0 wordList w"

text \<open>\<open>xs.slice(-k)\<close> for a number \<open>k \<ge> 0\<close> given by its integer part.\<close>

definition slice_last :: "'a list \<Rightarrow> nat \<Rightarrow> 'a list" where
  "slice_last xs k = (if k = 0 then xs else drop (length xs - k) xs)"

subsection \<open>The word list\<close>

text \<open>
  \<open>getEnglishWordList\<close> as the source file has it: fifty words, a comment standing
  for the rest, and the last word. The functions below take the word list as an
  argument, so that every theorem also holds of the full list of 2048 words.
\<close>

definition getEnglishWordList :: "string list" where
  "getEnglishWordList =
     [''abandon'', ''ability'', ''able'', ''about'', ''above'', ''absent'', ''absorb'',
      ''abstract'', ''absurd'', ''abuse'',
      ''access'', ''accident'', ''account'', ''accuse'', ''achieve'', ''acid'', ''acoustic'',
      ''acquire'', ''across'', ''act'',
      ''action'', ''actor'', ''actress'', ''actual'', ''adapt'', ''add'', ''addict'',
      ''address'', ''adjust'', ''admit'',
      ''adult'', ''advance'', ''advice'', ''aerobic'', ''affair'', ''afford'', ''afraid'',
      ''again'', ''age'', ''agent'',
      ''agree'', ''ahead'', ''aim'', ''air'', ''airport'', ''aisle'', ''alarm'', ''album'',
      ''alcohol'', ''alert'',
      ''zone'']"

subsection \<open>entropyToMnemonic\<close>

text \<open>\<open>for (i = 0; i < bits.length; i += 11) ... bits.slice(i, i + 11)\<close>.\<close>

function word_groups :: "int list \<Rightarrow> int list list" where
  "word_groups bits = (if bits = [] then [] else take 11 bits # word_groups (drop 11 bits))"
  by pat_completeness auto
termination
  by (relation "measure length") auto

text \<open>
  \<open>checksumBits = entropy.length * 8 / 32\<close> is a quotient of numbers, not an integer
  division. \<open>slice(0, checksumBits)\<close> takes its integer part.
\<close>

definition entropyToMnemonic :: "platform \<Rightarrow> string list \<Rightarrow> byte list \<Rightarrow> string" where
  "entropyToMnemonic p wordList entropy =
     (let hash = sha256 p entropy;
          bits = concat (map byteToBits entropy);
          hashBits = hashBits_of hash;
          bits = bits @ take (length entropy * 8 div 32) hashBits;
          words = map (\<lambda>wordBits. word_at wordList (bitsToNumber wordBits)) (word_groups bits)
      in join_sp words)"

subsection \<open>generateMnemonic\<close>

text \<open>
  \<open>entropyBits = wordCount * 11 - (wordCount / 3)\<close> and \<open>entropyBytes = entropyBits / 8\<close>
  are reached only for the five word counts of the configuration, where both
  quotients are exact. The entropy is a \<open>Uint8Array\<close>, on which \<open>zeroBuffer\<close> does
  nothing (see below), and it is local to the call.
\<close>

definition generateMnemonic :: "platform \<Rightarrow> string list \<Rightarrow> nat \<Rightarrow> rng \<Rightarrow> (js_error + string) \<times> rng" where
  "generateMnemonic p wordList wordCount g =
     (if wordCount \<notin> set mnemonic_wordCount
      then (Inl (Error ''Invalid word count. Must be one of: 12, 15, 18, 21, 24''), g)
      else
        (let entropyBits = wordCount * 11 - wordCount div 3;
             entropyBytes = entropyBits div 8;
             (entropy, g') = generateSecureRandom entropyBytes g
         in (Inr (entropyToMnemonic p wordList entropy), g')))"

subsection \<open>mnemonicToEntropy\<close>

text \<open>The loop over the words; it throws at the first word outside the list.\<close>

fun words_to_bits :: "string list \<Rightarrow> string list \<Rightarrow> js_error + int list" where
  "words_to_bits wordList [] = Inr []"
| "words_to_bits wordList (w # ws) =
     (let index = indexOf wordList w in
      if index = -1 then Inl (Error (''Invalid word: '' @ w))
      else (case words_to_bits wordList ws of
              Inl e \<Rightarrow> Inl e
            | Inr bits \<Rightarrow> Inr (numberToBits index 11 @ bits)))"

text \<open>
  \<open>checksumBits = bits.length / 33; entropyBits = bits.length - checksumBits;
  for (i = 0; i < entropyBits; i += 8)\<close>. The test \<open>i < entropyBits\<close> is
  \<open>33 * i < 32 * bits.length\<close> on integers. \<open>new Uint8Array(entropy)\<close> keeps the low
  eight bits of each number.
\<close>

function entropy_loop :: "int list \<Rightarrow> nat \<Rightarrow> byte list" where
  "entropy_loop bits i =
     (if 33 * i < 32 * length bits
      then word_of_int (bitsToNumber (take 8 (drop i bits))) # entropy_loop bits (i + 8)
      else [])"
  by pat_completeness auto
termination
  by (relation "measure (\<lambda>(bits, i). 32 * length bits - 33 * i)") auto

definition mnemonicToEntropy :: "string list \<Rightarrow> string \<Rightarrow> js_error + byte list" where
  "mnemonicToEntropy wordList mnemonic =
     (let words = split_ws (trim mnemonic) in
      case words_to_bits wordList words of
        Inl e \<Rightarrow> Inl e
      | Inr bits \<Rightarrow> Inr (entropy_loop bits 0))"

subsection \<open>verifyChecksum\<close>

text \<open>
  \<open>for (i = 0; i < checksumBits; i++) if (extractedChecksum[i] !== expectedChecksum[i])
  return false\<close>, with \<open>checksumBits = entropy.length * 8 / 32\<close>: the test
  \<open>i < checksumBits\<close> is \<open>32 * i < 8 * entropy.length\<close>. An element out of range is
  \<open>undefined\<close>, which is not equal to any number.
\<close>

function checksum_loop :: "nat \<Rightarrow> int list \<Rightarrow> int list \<Rightarrow> nat \<Rightarrow> bool" where
  "checksum_loop n extracted expected i =
     (if 32 * i < 8 * n
      then (if at_index extracted i \<noteq> at_index expected i then False
            else checksum_loop n extracted expected (i + 1))
      else True)"
  by pat_completeness auto
termination
  by (relation "measure (\<lambda>(n, extracted, expected, i). 8 * n - 32 * i)") auto

definition verifyChecksum :: "platform \<Rightarrow> string list \<Rightarrow> byte list \<Rightarrow> bool" where
  "verifyChecksum p wordList entropy =
     (let hash = sha256 p entropy;
          checksumBits = length entropy * 8 div 32;
          hashBits = hashBits_of hash;
          mnemonic = entropyToMnemonic p wordList entropy;
          words = split_on CHR '' '' mnemonic;
          bits = concat (map (\<lambda>w. numberToBits (indexOf wordList w) 11) words);
          extractedChecksum = slice_last bits checksumBits;
          expectedChecksum = take checksumBits hashBits
      in checksum_loop (length entropy) extractedChecksum expectedChecksum 0)"

subsection \<open>validateMnemonic\<close>

text \<open>
  The argument is any value of the language. The result is the object the source
  returns; a thrown error would be \<open>Inl\<close>.
\<close>

datatype jsval = JUndefined | JNull_val | JBoolean bool | JNumber int | JString string | JObject json

record validation =
  valid :: bool
  error :: "string option"

fun first_invalid_word :: "string list \<Rightarrow> string list \<Rightarrow> string option" where
  "first_invalid_word wordList [] = None"
| "first_invalid_word wordList (w # ws) =
     (if w \<notin> set wordList then Some w else first_invalid_word wordList ws)"

definition error_message :: "js_error \<Rightarrow> string" where
  "error_message e = (case e of Error m \<Rightarrow> m | DOMException m \<Rightarrow> m | TypeError m \<Rightarrow> m)"

definition validateMnemonic :: "platform \<Rightarrow> string list \<Rightarrow> jsval \<Rightarrow> js_error + validation" where
  "validateMnemonic p wordList arg =
     (case arg of
        JString mnemonic \<Rightarrow>
          (if mnemonic = [] then Inr \<lparr>valid = False, error = Some ''Invalid mnemonic format''\<rparr>
           else
             (let words = split_ws (trim mnemonic) in
              if length words \<notin> set mnemonic_wordCount
              then Inr \<lparr>valid = False,
                        error = Some ''Invalid word count. Must be 12, 15, 18, 21, 24 words''\<rparr>
              else
                (case first_invalid_word wordList words of
                   Some w \<Rightarrow>
                     Inr \<lparr>valid = False,
                          error = Some (''Invalid word: '' @ [CHR 0x22] @ w @ [CHR 0x22])\<rparr>
                 | None \<Rightarrow>
                     (case mnemonicToEntropy wordList mnemonic of
                        Inl e \<Rightarrow> Inr \<lparr>valid = False, error = Some (error_message e)\<rparr>
                      | Inr entropy \<Rightarrow>
                          (if \<not> verifyChecksum p wordList entropy
                           then Inr \<lparr>valid = False, error = Some ''Invalid checksum''\<rparr>
                           else Inr \<lparr>valid = True, error = None\<rparr>)))))
      | _ \<Rightarrow> Inr \<lparr>valid = False, error = Some ''Invalid mnemonic format''\<rparr>)"

subsection \<open>mnemonicToSeed\<close>

definition normalizeString :: "platform \<Rightarrow> string \<Rightarrow> string" where
  "normalizeString p str = normalize_nfkd p str"

text \<open>
  The passphrase is optional (\<open>passphrase = ''\<close>). The two buffers are
  \<open>Uint8Array\<close>s local to the call. The function draws no random bytes; it is given
  the generator and returns it, so that two calls in a row can be written down.
\<close>

definition mnemonicToSeed :: "platform \<Rightarrow> string \<Rightarrow> string option \<Rightarrow> rng \<Rightarrow> byte list \<times> rng" where
  "mnemonicToSeed p mnemonic passphrase g =
     (let passphrase = (case passphrase of None \<Rightarrow> [] | Some s \<Rightarrow> s);
          mnemonicBuffer = text_encode p (normalizeString p mnemonic);
          saltBuffer = text_encode p (''mnemonic'' @ normalizeString p passphrase);
          seed = pbkdf2_deriveBits p mnemonicBuffer saltBuffer 2048 ''SHA-512'' 512
      in (seed, g))"

text \<open>
  The seed as the specification words it: the key-stretching function applied to the
  normalised phrase, salted with \<open>"mnemonic"\<close> followed by the normalised passphrase,
  2048 rounds, 64 bytes.
\<close>

definition seed_spec :: "platform \<Rightarrow> string \<Rightarrow> string \<Rightarrow> byte list" where
  "seed_spec p phrase passphrase =
     pbkdf2_deriveBits p (text_encode p (normalize_nfkd p phrase))
       (text_encode p (''mnemonic'' @ normalize_nfkd p passphrase)) 2048 ''SHA-512'' (64 * 8)"

section \<open>src/unnamed/part 002: EncryptionManager\<close>

subsection \<open>Buffers\<close>

text \<open>
  An \<open>ArrayBuffer\<close> that the caller can still see after a call lives in the heap, at
  an address. A \<open>Uint8Array\<close> handed in by the caller is a view of such a buffer.
  Buffers created inside a call and dropped at its end are plain lists of bytes.
\<close>

type_synonym heap = "nat \<Rightarrow> byte list"

record uint8array =
  buffer :: nat
  byteOffset :: nat
  byteLength :: nat


text \<open>
  \<open>SecurityConfig.zeroBuffer(buffer)\<close> writes zeros only when the argument is an
  \<open>ArrayBuffer\<close> (or a plain array, which no caller modelled here passes). A
  \<open>Uint8Array\<close> is neither, and a string cannot be changed: for both the call does
  nothing.
\<close>

datatype zero_arg = ArrayBufferArg nat | Uint8ArrayArg | StringArg

definition zeroBuffer :: "zero_arg \<Rightarrow> heap \<Rightarrow> heap" where
  "zeroBuffer b h =
     (case b of
        ArrayBufferArg a \<Rightarrow> h(a := replicate (length (h a)) 0)
      | Uint8ArrayArg \<Rightarrow> h
      | StringArg \<Rightarrow> h)"

record world =
  heap :: heap
  random :: rng

subsection \<open>deriveKey\<close>

text \<open>
  \<open>this.algorithm.split('-')[0]\<close> is the name of the derived key's algorithm that
  the source hands to \<open>crypto.subtle.deriveKey\<close>. The salt is an object, so
  \<open>!salt\<close> is false.
\<close>

definition derived_key_name :: string where
  "derived_key_name = (case split_on CHR ''-'' encryption_algorithm of [] \<Rightarrow> [] | x # _ \<Rightarrow> x)"

definition deriveKey :: "platform \<Rightarrow> string \<Rightarrow> byte list \<Rightarrow> js_error + byte list" where
  "deriveKey p password salt =
     (if password = [] then Inl (Error ''Password and salt required'')
      else
        (let passwordBuffer = text_encode p password
         in pbkdf2_deriveKey p passwordBuffer salt encryption_iterations encryption_hash
              derived_key_name encryption_keySize))"

subsection \<open>Base64\<close>

definition arrayBufferToBase64 :: "platform \<Rightarrow> byte list \<Rightarrow> string" where
  "arrayBufferToBase64 p bytes = btoa p (map (\<lambda>b. char_of (unat b)) bytes)"


subsection \<open>encrypt\<close>

datatype payload =
    TextData string
  | Uint8ArrayData uint8array
  | ArrayBufferData nat
  | OtherData

text \<open>
  The bytes handed to \<open>crypto.subtle.encrypt\<close> and the object later handed to
  \<open>zeroBuffer\<close>. For a \<open>Uint8Array\<close> the source takes \<open>data.buffer\<close>: the whole
  buffer under the view. A value that is no buffer makes \<open>crypto.subtle.encrypt\<close>
  throw.
\<close>

definition dataBuffer_of :: "platform \<Rightarrow> heap \<Rightarrow> payload \<Rightarrow> js_error + byte list \<times> zero_arg" where
  "dataBuffer_of p h data =
     (case data of
        TextData s \<Rightarrow> Inr (text_encode p s, Uint8ArrayArg)
      | Uint8ArrayData v \<Rightarrow> Inr (h (buffer v), ArrayBufferArg (buffer v))
      | ArrayBufferData a \<Rightarrow> Inr (h a, ArrayBufferArg a)
      | OtherData \<Rightarrow> Inl (TypeError ''data is not a BufferSource''))"

definition encrypt :: "platform \<Rightarrow> payload \<Rightarrow> string \<Rightarrow> world \<Rightarrow> (js_error + string) \<times> world" where
  "encrypt p data password w =
     (let (salt, g1) = generateSecureRandom encryption_saltSize (random w);
          (iv, g2) = generateSecureRandom encryption_ivSize g1;
          w2 = w\<lparr>random := g2\<rparr>;
          failed = (Inl (Error ''Failed to encrypt data''), w2)
      in case deriveKey p password salt of
           Inl e \<Rightarrow> failed
         | Inr key \<Rightarrow>
             (case dataBuffer_of p (heap w) data of
                Inl e \<Rightarrow> failed
              | Inr (bytes, dataBuffer) \<Rightarrow>
                  (case subtle_encrypt p encryption_algorithm key iv bytes of
                     Inl e \<Rightarrow> failed
                   | Inr encrypted \<Rightarrow>
                       (let result = salt @ iv @ encrypted;
                            base64 = arrayBufferToBase64 p result;
                            h1 = zeroBuffer Uint8ArrayArg (heap w);
                            h2 = zeroBuffer Uint8ArrayArg h1;
                            h3 = zeroBuffer dataBuffer h2
                        in (Inr base64, w2\<lparr>heap := h3\<rparr>)))))"

subsection \<open>decrypt\<close>




section \<open>src/core/storage.js: StorageManager\<close>

subsection \<open>Values read from records\<close>

text \<open>
  \<open>value.name\<close> on a stored or parsed value: the field of an object, \<open>undefined\<close>
  (\<open>None\<close>) otherwise. The names read by the wallet are field names and chain
  identifiers; the built-in properties of strings and arrays (\<open>length\<close>, indices) are
  not among them and are not modelled.
\<close>

fun get_prop :: "json \<Rightarrow> string \<Rightarrow> json option" where
  "get_prop (JObj kvs) name = map_of kvs name"
| "get_prop _ name = None"



subsection \<open>The object stores\<close>

text \<open>
  An object store holds its records in the order of their keys; the key of a record is
  the value at the store's key path. Numbers, strings and arrays of keys are keys;
  numbers come before strings, strings before arrays. A record without a key at the
  key path makes \<open>store.put\<close> throw a \<open>DataError\<close>.
\<close>

fun valid_key :: "json \<Rightarrow> bool" where
  "valid_key (JNum n) = True"
| "valid_key (JStr s) = True"
| "valid_key (JArr ks) = list_all valid_key ks"
| "valid_key JNull = False"
| "valid_key (JBool b) = False"
| "valid_key (JObj kvs) = False"

fun str_less :: "string \<Rightarrow> string \<Rightarrow> bool" where
  "str_less [] [] = False"
| "str_less [] (y # ys) = True"
| "str_less (x # xs) [] = False"
| "str_less (x # xs) (y # ys) =
     ((of_char x :: nat) < of_char y \<or> (x = y \<and> str_less xs ys))"

fun key_less :: "json \<Rightarrow> json \<Rightarrow> bool" and keys_less :: "json list \<Rightarrow> json list \<Rightarrow> bool" where
  "key_less (JNum a) (JNum b) = (a < b)"
| "key_less (JNum a) (JStr b) = True"
| "key_less (JNum a) (JArr b) = True"
| "key_less (JStr a) (JStr b) = str_less a b"
| "key_less (JStr a) (JArr b) = True"
| "key_less (JArr a) (JArr b) = keys_less a b"
| "key_less _ _ = False"
| "keys_less [] [] = False"
| "keys_less [] (y # ys) = True"
| "keys_less (x # xs) [] = False"
| "keys_less (x # xs) (y # ys) = (key_less x y \<or> (x = y \<and> keys_less xs ys))"

type_synonym object_store = "(json \<times> json) list"

fun store_put :: "json \<Rightarrow> json \<Rightarrow> object_store \<Rightarrow> object_store" where
  "store_put k v [] = [(k, v)]"
| "store_put k v ((k', v') # rest) =
     (if k = k' then (k, v) # rest
      else if key_less k k' then (k, v) # (k', v') # rest
      else (k', v') # store_put k v rest)"

record db =
  wallets :: object_store
  settings :: object_store
  transactions :: object_store
  tokens :: object_store

datatype store_name = Wallets | Settings | Transactions | Tokens

fun keyPath :: "store_name \<Rightarrow> string" where
  "keyPath Wallets = ''id''"
| "keyPath Settings = ''key''"
| "keyPath Transactions = ''id''"
| "keyPath Tokens = ''address''"

fun objectStore :: "store_name \<Rightarrow> db \<Rightarrow> object_store" where
  "objectStore Wallets d = wallets d"
| "objectStore Settings d = settings d"
| "objectStore Transactions d = transactions d"
| "objectStore Tokens d = tokens d"

fun with_objectStore :: "store_name \<Rightarrow> object_store \<Rightarrow> db \<Rightarrow> db" where
  "with_objectStore Wallets s d = d\<lparr>wallets := s\<rparr>"
| "with_objectStore Settings s d = d\<lparr>settings := s\<rparr>"
| "with_objectStore Transactions s d = d\<lparr>transactions := s\<rparr>"
| "with_objectStore Tokens s d = d\<lparr>tokens := s\<rparr>"

subsection \<open>Generic operations\<close>

definition put :: "store_name \<Rightarrow> json \<Rightarrow> db \<Rightarrow> (js_error + unit) \<times> db" where
  "put storeName data d =
     (case get_prop data (keyPath storeName) of
        None \<Rightarrow> (Inl (DOMException ''DataError''), d)
      | Some k \<Rightarrow>
          (if valid_key k
           then (Inr (), with_objectStore storeName (store_put k data (objectStore storeName d)) d)
           else (Inl (DOMException ''DataError''), d)))"




subsection \<open>saveWallet\<close>






subsection \<open>loadWallet and getWalletInfo\<close>

record loaded_wallet =
  lw_id :: "json option"
  lw_name :: "json option"
  lw_mnemonic :: "string option"
  lw_addresses :: json
  lw_createdAt :: "json option"
  lw_version :: "json option"





subsection \<open>saveSetting, clearAll, importWallet\<close>






section \<open>src/core/storage.js: WalletManager\<close>


record wallet_manager =
  wallet :: "loaded_wallet option"
  mnemonic :: "string option"
  privateKeys :: "(string \<times> string) list"
  isLocked :: bool


text \<open>\<open>if (x) x = null\<close> on a string or \<open>null\<close>: the empty string is kept.\<close>

definition null_if_truthy :: "string option \<Rightarrow> string option" where
  "null_if_truthy x = (case x of None \<Rightarrow> None | Some s \<Rightarrow> if s = [] then Some s else None)"

definition clearSensitiveData :: "wallet_manager \<Rightarrow> wallet_manager" where
  "clearSensitiveData s =
     s\<lparr>mnemonic := null_if_truthy (mnemonic s),
       privateKeys := [],
       wallet := (case wallet s of
                    None \<Rightarrow> None
                  | Some w \<Rightarrow> Some (w\<lparr>lw_mnemonic := null_if_truthy (lw_mnemonic w)\<rparr>))\<rparr>"

definition lock :: "wallet_manager \<Rightarrow> wallet_manager" where
  "lock s = (clearSensitiveData s)\<lparr>isLocked := True\<rparr>"

definition autoLock_fired :: "wallet_manager \<Rightarrow> wallet_manager" where
  "autoLock_fired s = (if \<not> isLocked s then lock s else s)"





text \<open>The callback of the 30 second timer set by \<open>getPrivateKey\<close>.\<close>

definition privateKey_expired :: "string \<Rightarrow> wallet_manager \<Rightarrow> wallet_manager" where
  "privateKey_expired chain s = s\<lparr>privateKeys := filter (\<lambda>(k, v). k \<noteq> chain) (privateKeys s)\<rparr>"

section \<open>Contracts of the platform\<close>




text \<open>The key stretching returns as many bits as it is asked for.\<close>

definition deriveBits_contract :: "platform \<Rightarrow> bool" where
  "deriveBits_contract p \<longleftrightarrow>
     (\<forall>pw salt rounds h bits. length (pbkdf2_deriveBits p pw salt rounds h bits) = bits div 8)"

section \<open>Properties of the stored data\<close>






section \<open>A small platform for concrete runs\<close>

text \<open>
  A platform on which the functions can be run on concrete inputs. Text is encoded one
  character to a byte, base64 is the identity, a derived key is the password followed by
  the salt, and a ciphertext is the key, framed so that it can be read back, followed
  by the plaintext; decryption rejects a ciphertext framed with another key.
  \<open>JSON.parse\<close> knows the three documents used below, each with the value that
  \<open>JSON.parse\<close> gives it.
\<close>

fun key_frame :: "byte list \<Rightarrow> byte list" where
  "key_frame [] = [0]"
| "key_frame (b # k) = 1 # b # key_frame k"

fun strip_key :: "byte list \<Rightarrow> byte list \<Rightarrow> byte list option" where
  "strip_key [] (c # ct) = (if c = 0 then Some ct else None)"
| "strip_key (b # k) (c1 # c2 # ct) = (if c1 = 1 \<and> c2 = b then strip_key k ct else None)"
| "strip_key k ct = None"

definition backup_not_iterable :: string where
  \<open>backup_not_iterable = ''{"version":"1.0.0","wallets":5}''\<close>

definition backup_without_id :: string where
  \<open>backup_without_id = ''{"version":"1.0.0","wallets":[{"name":"restored"}]}''\<close>

definition backup_with_phrase :: string where
  \<open>backup_with_phrase =
     ''{"version":"1.0.0","wallets":[{"id":"w2","mnemonic":"abandon ability able"}]}''\<close>

definition demo_json_parse :: "string \<Rightarrow> js_error + json" where
  "demo_json_parse text =
     (if text = backup_not_iterable
      then Inr (JObj [(''version'', JStr ''1.0.0''), (''wallets'', JNum 5)])
      else if text = backup_without_id
      then Inr (JObj [(''version'', JStr ''1.0.0''),
                      (''wallets'', JArr [JObj [(''name'', JStr ''restored'')]])])
      else if text = backup_with_phrase
      then Inr (JObj [(''version'', JStr ''1.0.0''),
                      (''wallets'', JArr [JObj [(''id'', JStr ''w2''),
                                                (''mnemonic'', JStr ''abandon ability able'')]])])
      else Inl (Error ''SyntaxError''))"

definition demo_platform :: platform where
  "demo_platform =
     \<lparr>digest_sha256 = (\<lambda>data. replicate 32 0),
      normalize_nfkd = (\<lambda>s. s),
      text_encode = map (\<lambda>c. of_char c),
      text_decode = map (\<lambda>b. char_of (unat b)),
      pbkdf2_deriveBits = (\<lambda>pw salt rounds h bits. replicate (bits div 8) 0),
      pbkdf2_deriveKey = (\<lambda>pw salt rounds h name len. Inr (pw @ salt)),
      subtle_encrypt = (\<lambda>name k iv pt. Inr (key_frame k @ pt)),
      subtle_decrypt = (\<lambda>name k iv ct.
         case strip_key k ct of
           None \<Rightarrow> Inl (DOMException ''OperationError'')
         | Some pt \<Rightarrow> Inr pt),
      btoa = (\<lambda>binary. binary),
      atob = (\<lambda>base64. Inr base64),
      json_parse = demo_json_parse\<rparr>"















chapter \<open>Theorems\<close>

section \<open>Mnemonic phrases\<close>

lemma hashBits_of_sha256: "hashBits_of (sha256 p e) = []"
  by (simp add: hashBits_of_def sha256_def)

lemma split_on_nonempty: "split_on sep s \<noteq> []"
  by (induction s) (auto split: list.splits)

lemma split_ws_from_nonempty: "split_ws_from cur s \<noteq> []"
  by (induction cur s rule: split_ws_from.induct) auto

lemma word_bits_nonempty:
  "ws \<noteq> [] \<Longrightarrow> concat (map (\<lambda>w. numberToBits (f w) 11) ws) \<noteq> []"
  by (cases ws) (auto simp: numberToBits_def)

lemma slice_last_nonempty: "xs \<noteq> [] \<Longrightarrow> slice_last xs k \<noteq> []"
  by (cases xs) (auto simp: slice_last_def)

text \<open>
  The first comparison of \<open>verifyChecksum\<close> is between a bit and \<open>undefined\<close>.
\<close>

lemma checksum_loop_undefined:
  "n \<noteq> 0 \<Longrightarrow> extracted \<noteq> [] \<Longrightarrow> \<not> checksum_loop n extracted [] 0"
  by (subst checksum_loop.simps) (auto simp: at_index_def)

lemma verifyChecksum_nonempty: "entropy \<noteq> [] \<Longrightarrow> \<not> verifyChecksum p wordList entropy"
proof -
  assume ne: "entropy \<noteq> []"
  let ?bits = "concat (map (\<lambda>w. numberToBits (indexOf wordList w) 11)
                 (split_on CHR '' '' (entropyToMnemonic p wordList entropy)))"
  have "?bits \<noteq> []"
    by (rule word_bits_nonempty) (rule split_on_nonempty)
  then have "slice_last ?bits (length entropy * 8 div 32) \<noteq> []"
    by (rule slice_last_nonempty)
  moreover from ne have "length entropy \<noteq> 0" by simp
  ultimately have "\<not> checksum_loop (length entropy)
      (slice_last ?bits (length entropy * 8 div 32)) [] 0"
    by (intro checksum_loop_undefined)
  then show ?thesis
    by (simp add: verifyChecksum_def Let_def hashBits_of_sha256 del: checksum_loop.simps)
qed

lemma words_to_bits_nonempty:
  "words_to_bits wordList ws = Inr bits \<Longrightarrow> ws \<noteq> [] \<Longrightarrow> bits \<noteq> []"
  by (cases ws) (auto simp: Let_def numberToBits_def split: if_splits sum.splits)

lemma entropy_loop_nonempty: "bits \<noteq> [] \<Longrightarrow> entropy_loop bits 0 \<noteq> []"
  by (subst entropy_loop.simps) auto

lemma mnemonicToEntropy_nonempty:
  "mnemonicToEntropy wordList m = Inr entropy \<Longrightarrow> entropy \<noteq> []"
  by (auto simp: mnemonicToEntropy_def Let_def split_ws_def split: sum.splits
           dest!: words_to_bits_nonempty intro!: entropy_loop_nonempty simp: split_ws_from_nonempty)





text \<open>
  Whatever the platform's digest, the word list and the input, \<open>validateMnemonic\<close>
  never answers \<open>valid = true\<close>: the entropy of a phrase with a valid number of words
  is not empty, and no entropy that is not empty passes \<open>verifyChecksum\<close>.
\<close>

lemma validateMnemonic_never_valid:
  "validateMnemonic p wordList arg = Inr r \<Longrightarrow> \<not> valid r"
  by (auto simp: validateMnemonic_def Let_def verifyChecksum_nonempty
           split: jsval.splits if_splits option.splits sum.splits
           dest: mnemonicToEntropy_nonempty)

lemma generateMnemonic_returns:
  "wordCount \<in> set mnemonic_wordCount \<Longrightarrow>
   \<exists>phrase g'. generateMnemonic p wordList wordCount g = (Inr phrase, g')"
  by (simp add: generateMnemonic_def Let_def split: prod.splits)

text \<open>
  Claim C1: for every word count in 12, 15, 18, 21, 24, the phrase returned by
  \<open>generateMnemonic\<close> passes \<open>validateMnemonic\<close>. The code does not do this. With a
  generator that returns sixteen zero bytes, \<open>generateMnemonic(12)\<close> returns twelve
  times the first word, and \<open>validateMnemonic\<close> answers that phrase with
  \<open>valid = false\<close> and the reason \<open>Invalid checksum\<close>, on every platform.
\<close>

theorem generated_phrase_is_rejected:
  "fst (generateMnemonic p getEnglishWordList 12 \<lparr>tape = (\<lambda>i. 0), pos = 0\<rparr>) =
     Inr ''abandon abandon abandon abandon abandon abandon abandon abandon abandon abandon abandon abandon''
   \<and> validateMnemonic p getEnglishWordList
       (JString ''abandon abandon abandon abandon abandon abandon abandon abandon abandon abandon abandon abandon'')
     = Inr \<lparr>valid = False, error = Some ''Invalid checksum''\<rparr>"
  by code_simp



section \<open>The cipher\<close>

subsection \<open>Bytes, base64 and the layout of the envelope\<close>








subsection \<open>What a call of encrypt or decrypt did\<close>


lemma encrypt_Inl:
  "encrypt p data password w = (Inl e, w') \<Longrightarrow>
   e = Error ''Failed to encrypt data'' \<and> heap w' = heap w"
  by (auto simp: encrypt_def Let_def case_prod_beta split: sum.splits)






subsection \<open>The small platform keeps the contracts\<close>















subsection \<open>The round trip\<close>




subsection \<open>A wrong password\<close>



subsection \<open>The envelope\<close>



subsection \<open>The caller's buffer\<close>



section \<open>The seed\<close>

lemma demo_deriveBits: "deriveBits_contract demo_platform"
  by (simp add: deriveBits_contract_def demo_platform_def)

text \<open>
  Claim C7: \<open>mnemonicToSeed\<close> is a function of the phrase and the passphrase alone.
  Its result is 64 bytes; it is the key stretching of the normalised phrase with the
  salt \<open>mnemonic\<close> followed by the normalised passphrase; a second call with the same
  arguments returns the same bytes, whatever the state of the random generator.
\<close>

theorem mnemonicToSeed_deterministic:
  assumes "deriveBits_contract p"
  shows "length (fst (mnemonicToSeed p phrase passphrase g)) = 64
         \<and> fst (mnemonicToSeed p phrase passphrase g)
             = seed_spec p phrase (case passphrase of None \<Rightarrow> [] | Some s \<Rightarrow> s)
         \<and> fst (mnemonicToSeed p phrase passphrase (snd (mnemonicToSeed p phrase passphrase g)))
             = fst (mnemonicToSeed p phrase passphrase g)
         \<and> (\<forall>g'. fst (mnemonicToSeed p phrase passphrase g') = fst (mnemonicToSeed p phrase passphrase g))"
  using assms
  by (simp add: mnemonicToSeed_def seed_spec_def normalizeString_def Let_def deriveBits_contract_def)

theorem mnemonicToSeed_deterministic_witness:
  "deriveBits_contract demo_platform
   \<and> length (fst (mnemonicToSeed demo_platform ''abandon ability'' None \<lparr>tape = (\<lambda>i. 7), pos = 0\<rparr>)) = 64"
  using mnemonicToSeed_deterministic
          [OF demo_deriveBits, of "''abandon ability''" None "\<lparr>tape = (\<lambda>i. 7), pos = 0\<rparr>"]
    demo_deriveBits
  by blast

section \<open>The store\<close>

subsection \<open>Writing records\<close>

lemma put_Inl: "put storeName data d = (Inl e, d') \<Longrightarrow> d' = d"
  by (auto simp: put_def split: option.splits if_splits)












subsection \<open>saveWallet\<close>






subsection \<open>importWallet\<close>



subsection \<open>Runs on the small platform\<close>

lemma demo_json_parse: "json_parse demo_platform = demo_json_parse"
  by (simp add: demo_platform_def)







subsection \<open>No plaintext phrase in the store\<close>




subsection \<open>A failed import\<close>




section \<open>The session\<close>








end
